theory Spec2Isabelle
  imports Main
begin

section \<open>Go values shared by both packages\<close>

text \<open>
  \<^verbatim>\<open>type Identifier = []string\<close> (table.go, line 30). A slice is a list; the nil slice
  and the empty slice are both \<open>[]\<close>, which is how \<open>len\<close>, \<open>range\<close>, \<open>append\<close> and
  \<open>slices.Equal\<close> see them.
\<close>

type_synonym Identifier = "string list"

text \<open>
  An error value received from a callee outside this code (the Glue client, the metadata
  constructor, the storage loader) is known through what Go lets a caller observe of it:
  the pointer it is (\<open>addr\<close>), its dynamic type, the text of \<open>Error()\<close> and what
  \<open>Unwrap()\<close> returns. None of the error types that occur here declares an \<open>Is\<close> method.
\<close>

type_synonym addr = nat

datatype go_error =
  GoError (addr: addr) (dyn_type: string) (Error: string) (Unwrap: "go_error option")

text \<open>
  Modelled from the spec: the declaration of \<open>ErrNoSuchTable\<close> is not in the source files
  at hand; the spec calls it a distinguished no-such-table sentinel that callers recognise
  by identity, so it is a constructor of its own among the error values this code makes
  or hands on.

  The other constructors follow the source: \<open>errorString\<close> is what \<open>errors.New\<close> and
  \<open>fmt.Errorf\<close> without \<open>%w\<close> return, \<open>wrapError\<close> what \<open>fmt.Errorf\<close> with \<open>%w\<close> returns
  (its text and the wrapped cause), \<open>Received\<close> an error of a callee returned as it came.
  \<open>NilDereference\<close> is not a returned error: it stands for the run-time panic of reading a
  field through a nil pointer.
\<close>

datatype error =
  ErrNoSuchTable
  | errorString string
  | wrapError string go_error
  | Received go_error
  | NilDereference

text \<open>
  \<open>errors.Is(err, target)\<close> of the standard library, for error types without an \<open>Is\<close>
  method: walk the \<open>Unwrap\<close> chain of \<open>err\<close> and at every link compare with \<open>target\<close>
  by \<open>==\<close>. Both sides are interface values holding pointers, so \<open>==\<close> asks for the same
  dynamic type and the same address.
\<close>

fun errors_Is :: "go_error \<Rightarrow> go_error \<Rightarrow> bool" where
  "errors_Is (GoError a t m u) target =
     ((t = dyn_type target \<and> a = addr target) \<or>
      (case u of None \<Rightarrow> False | Some e \<Rightarrow> errors_Is e target))"

text \<open>The addresses of the links of an error's \<open>Unwrap\<close> chain.\<close>

fun chain_addrs :: "go_error \<Rightarrow> addr list" where
  "chain_addrs (GoError a t m u) =
     a # (case u of None \<Rightarrow> [] | Some e \<Rightarrow> chain_addrs e)"

text \<open>
  \<open>%v\<close> of a \<open>[]string\<close>: the elements separated by one space, in square brackets.
\<close>

fun join_space :: "string list \<Rightarrow> string" where
  "join_space [] = []"
| "join_space [x] = x"
| "join_space (x # y # ys) = x @ '' '' @ join_space (y # ys)"

definition fmt_v :: "string list \<Rightarrow> string" where
  "fmt_v xs = ''['' @ join_space xs @ '']''"

section \<open>Package catalog: the Glue catalog\<close>

subsection \<open>Data\<close>

text \<open>
  Modelled from the spec: \<open>CatalogType\<close>, its constant \<open>Glue\<close> and the struct
  \<open>CatalogTable\<close> are declared in a file that is not at hand. The spec gives
  \<open>CatalogTable\<close> as \<open>{Identifier, Location: string, CatalogType: enum}\<close> and names
  managed-metastore, Hive-style and REST backends.
\<close>

datatype CatalogType = REST | Hive | Glue

record CatalogTable =
  Identifier :: Identifier
  Location :: string
  CatalogType :: CatalogType

text \<open>
  The request and response structs of the Glue client, with the fields this code writes
  or reads. A \<open>*string\<close> or a pointer to a struct is an option, \<open>None\<close> for nil;
  \<open>map[string]string\<close> is a partial map.
\<close>

record GetTableInput =
  DatabaseName :: "string option"
  Name :: "string option"

record GetTablesInput =
  DatabaseName :: "string option"

record types_Table =
  Name :: "string option"
  Parameters :: "string \<rightharpoonup> string"

record GetTableOutput =
  Table :: "types_Table option"

record GetTablesOutput =
  TableList :: "types_Table list"

text \<open>\<open>aws.String\<close> and \<open>aws.ToString\<close>: a pointer to the string, and the string behind
  a pointer, empty for nil.\<close>

definition aws_String :: "string \<Rightarrow> string option" where
  "aws_String s = Some s"

definition aws_ToString :: "string option \<Rightarrow> string" where
  "aws_ToString p = (case p of None \<Rightarrow> [] | Some s \<Rightarrow> s)"

text \<open>Reading a Go map: the value stored, or the zero value \<open>""\<close> for a missing key
  (and for every key of a nil map).\<close>

definition map_index :: "(string \<rightharpoonup> string) \<Rightarrow> string \<Rightarrow> string" where
  "map_index m k = (case m k of None \<Rightarrow> [] | Some v \<Rightarrow> v)"

text \<open>
  \<open>GlueAPI\<close> (lines 18-21) is an interface: the two calls are parameters. A call takes the
  context and the request, acts on the backend (the state \<open>'s\<close>, which it may change) and
  returns Go's pair of a response pointer and an error.
\<close>

record ('ctx, 's) GlueAPI =
  GetTable_call :: "'ctx \<Rightarrow> GetTableInput \<Rightarrow> 's \<Rightarrow> (GetTableOutput option \<times> go_error option) \<times> 's"
  GetTables_call :: "'ctx \<Rightarrow> GetTablesInput \<Rightarrow> 's \<Rightarrow> (GetTablesOutput option \<times> go_error option) \<times> 's"

record ('ctx, 's) GlueCatalog =
  glueSvc :: "('ctx, 's) GlueAPI"

subsection \<open>The catalog's type (lines 99-101)\<close>

definition CatalogType_of :: "('ctx, 's) GlueCatalog \<Rightarrow> CatalogType" where
  "CatalogType_of c = Glue"

subsection \<open>Identifiers (lines 103-127)\<close>

definition identifierToGlueTable :: "Identifier \<Rightarrow> error + (string \<times> string)" where
  "identifierToGlueTable identifier =
     (if length identifier \<noteq> 2
      then Inl (errorString (''invalid identifier, missing database name: '' @ fmt_v identifier))
      else Inr (identifier ! 0, identifier ! 1))"

definition identifierToGlueDatabase :: "Identifier \<Rightarrow> error + string" where
  "identifierToGlueDatabase identifier =
     (if length identifier \<noteq> 1
      then Inl (errorString (''invalid identifier, missing database name: '' @ fmt_v identifier))
      else Inr (identifier ! 0))"

definition GlueTableIdentifier :: "string \<Rightarrow> string \<Rightarrow> Identifier" where
  "GlueTableIdentifier database table = [database, table]"

definition GlueDatabaseIdentifier :: "string \<Rightarrow> Identifier" where
  "GlueDatabaseIdentifier database = [database]"

subsection \<open>GetTable (lines 34-62)\<close>

text \<open>
  \<open>new\<close> is the address the run time gives to the one object whose identity matters
  here: the \<open>&types.EntityNotFoundException{}\<close> that line 47 allocates as the target of
  \<open>errors.Is\<close>. Its \<open>Message\<close> is nil, so its text is the error code, a colon and a space.
\<close>

definition new_EntityNotFoundException :: "addr \<Rightarrow> go_error" where
  "new_EntityNotFoundException new =
     GoError new ''*types.EntityNotFoundException'' ''EntityNotFoundException: '' None"

definition GetTable ::
  "('ctx, 's) GlueCatalog \<Rightarrow> addr \<Rightarrow> 'ctx \<Rightarrow> Identifier \<Rightarrow> 's \<Rightarrow> (error + CatalogTable) \<times> 's" where
  "GetTable c new ctx identifier s =
     (case identifierToGlueTable identifier of
        Inl err \<Rightarrow> (Inl err, s)
      | Inr (database, tableName) \<Rightarrow>
          (case GetTable_call (glueSvc c) ctx
                  \<lparr>GetTableInput.DatabaseName = aws_String database,
                   Name = aws_String tableName\<rparr> s of
             ((tblRes, Some err), s') \<Rightarrow>
               if errors_Is err (new_EntityNotFoundException new)
               then (Inl ErrNoSuchTable, s')
               else (Inl (wrapError (''failed to get table '' @ database @ ''.'' @ tableName
                                      @ '': '' @ Error err) err), s')
           | ((None, None), s') \<Rightarrow> (Inl NilDereference, s')
           | ((Some out, None), s') \<Rightarrow>
               (case Table out of
                  None \<Rightarrow> (Inl NilDereference, s')
                | Some tbl \<Rightarrow>
                    if map_index (Parameters tbl) ''table_type'' \<noteq> ''ICEBERG''
                    then (Inl (errorString ''table is not an iceberg table''), s')
                    else (Inr \<lparr>Identifier = identifier,
                               Location = map_index (Parameters tbl) ''metadata_location'',
                               CatalogType = Glue\<rparr>, s'))))"

subsection \<open>ListTables (lines 65-97)\<close>

text \<open>The loop of lines 80-94, with \<open>icebergTables\<close> as the accumulator.\<close>

fun ListTables_loop :: "string \<Rightarrow> types_Table list \<Rightarrow> CatalogTable list \<Rightarrow> CatalogTable list" where
  "ListTables_loop database [] icebergTables = icebergTables"
| "ListTables_loop database (tbl # rest) icebergTables =
     (if map_index (Parameters tbl) ''table_type'' \<noteq> ''ICEBERG''
      then ListTables_loop database rest icebergTables
      else ListTables_loop database rest
             (icebergTables @
              [\<lparr>Identifier = GlueTableIdentifier database (aws_ToString (types_Table.Name tbl)),
                Location = map_index (Parameters tbl) ''metadata_location'',
                CatalogType = Glue\<rparr>]))"

definition ListTables ::
  "('ctx, 's) GlueCatalog \<Rightarrow> 'ctx \<Rightarrow> Identifier \<Rightarrow> 's \<Rightarrow> (error + CatalogTable list) \<times> 's" where
  "ListTables c ctx identifier s =
     (case identifierToGlueDatabase identifier of
        Inl err \<Rightarrow> (Inl err, s)
      | Inr database \<Rightarrow>
          (case GetTables_call (glueSvc c) ctx
                  \<lparr>GetTablesInput.DatabaseName = aws_String database\<rparr> s of
             ((tblsRes, Some err), s') \<Rightarrow>
               (Inl (wrapError (''failed to list tables in namespace '' @ database
                                 @ '': '' @ Error err) err), s')
           | ((None, None), s') \<Rightarrow> (Inl NilDereference, s')
           | ((Some out, None), s') \<Rightarrow> (Inr (ListTables_loop database (TableList out) []), s')))"

section \<open>Package table\<close>

subsection \<open>Formatting integers\<close>

text \<open>
  \<open>fmt\<close> writes an integer in base ten from its last digit to its first, each digit as
  the byte \<open>'0' + d\<close>. Go's \<open>int\<close> has 64 bits; no arithmetic is done on the version here,
  so it is an \<open>int\<close>.
\<close>

definition digit :: "nat \<Rightarrow> char" where
  "digit d = char_of (of_char CHR ''0'' + d)"

fun decimal :: "nat \<Rightarrow> string" where
  "decimal n = (if n < 10 then [digit n] else decimal (n div 10) @ [digit (n mod 10)])"

declare decimal.simps [simp del]

text \<open>\<open>%d\<close>: the sign, then the digits of the magnitude.\<close>

definition fmt_d :: "int \<Rightarrow> string" where
  "fmt_d i = (if i < 0 then ''-'' else []) @ decimal (nat \<bar>i\<bar>)"

text \<open>
  \<open>%05d\<close>: width 5 with the zero flag. The digits are padded with zeros on the left up
  to the width, less one for the sign of a negative number; digits beyond the width are
  kept.
\<close>

definition fmt_05d :: "int \<Rightarrow> string" where
  "fmt_05d i =
     (let ds = decimal (nat \<bar>i\<bar>); prec = (if i < 0 then 4 else 5)
      in (if i < 0 then ''-'' else []) @ replicate (prec - length ds) CHR ''0'' @ ds)"

text \<open>Reading a numeric prefix back: whether a byte is a decimal digit, and the number a
  string of digits denotes.\<close>

definition is_digit :: "char \<Rightarrow> bool" where
  "is_digit c = ((of_char CHR ''0'' :: nat) \<le> of_char c \<and> (of_char c :: nat) \<le> of_char CHR ''9'')"

definition decimal_value :: "string \<Rightarrow> nat" where
  "decimal_value ds = foldl (\<lambda>n c. 10 * n + (of_char c - of_char CHR ''0'')) (0::nat) ds"

subsection \<open>GenerateMetadataFileName (lines 171-177)\<close>

text \<open>
  The package \<open>uuid\<close> is a library: \<open>uuid.New()\<close> and the method \<open>String()\<close> are
  parameters. \<open>uuid.New()\<close> draws from the process's random source, which belongs to the
  world \<open>'w\<close> outside this code; a call returns the UUID and the world after the draw.
  (\<open>uuid.New()\<close> panics when the random source cannot be read; the parameter is a total
  function, so that case is left to the library.)
\<close>

definition GenerateMetadataFileName ::
  "('w \<Rightarrow> 'u \<times> 'w) \<Rightarrow> ('u \<Rightarrow> string) \<Rightarrow> int \<Rightarrow> 'w \<Rightarrow> (error + string) \<times> 'w" where
  "GenerateMetadataFileName uuid_New uuid_String newVersion w =
     (if newVersion < 0
      then (Inl (errorString (''invalid table version: '' @ fmt_d newVersion
                               @ '' must be a non-negative integer'')), w)
      else (case uuid_New w of
              (u, w') \<Rightarrow>
                (Inr (fmt_05d newVersion @ ''-'' @ uuid_String u @ ''.metadata.json''), w')))"

subsection \<open>Table and Equals (lines 32-43)\<close>

text \<open>
  \<open>Metadata\<close> and \<open>io.IO\<close> are interfaces declared in files that are not at hand: the
  types \<open>'m\<close> and \<open>'fs\<close>.
\<close>

record ('m, 'fs) Table =
  "identifier" :: Identifier
  metadata :: 'm
  metadataLocation :: string
  fs :: 'fs

text \<open>\<open>slices.Equal\<close>: the lengths are compared first, then the elements from the
  front, stopping at the first pair that differs.\<close>

fun slices_Equal_from :: "'a list \<Rightarrow> 'a list \<Rightarrow> bool" where
  "slices_Equal_from (x # xs) (y # ys) = (if x \<noteq> y then False else slices_Equal_from xs ys)"
| "slices_Equal_from _ _ = True"

definition slices_Equal :: "'a list \<Rightarrow> 'a list \<Rightarrow> bool" where
  "slices_Equal s1 s2 = (if length s1 \<noteq> length s2 then False else slices_Equal_from s1 s2)"

text \<open>\<open>reflect.DeepEqual\<close> on the two \<open>Metadata\<close> values is a library function on a type
  that is not at hand: a parameter.\<close>

definition Equals :: "('m \<Rightarrow> 'm \<Rightarrow> bool) \<Rightarrow> ('m, 'fs) Table \<Rightarrow> ('m, 'fs) Table \<Rightarrow> bool" where
  "Equals reflect_DeepEqual t other =
     (slices_Equal (identifier t) (identifier other) \<and>
      metadataLocation t = metadataLocation other \<and>
      reflect_DeepEqual (metadata t) (metadata other))"

subsection \<open>TableBuilder (lines 101-164)\<close>

text \<open>
  \<open>*iceberg.Schema\<close>, \<open>iceberg.PartitionSpec\<close> and \<open>SortOrder\<close> are declared elsewhere: the
  types \<open>'sch\<close>, \<open>'ps\<close> and \<open>'so\<close>. A field that a struct literal leaves out has Go's zero
  value, written \<open>default\<close>. \<open>iceberg.Properties\<close> is a \<open>map[string]string\<close>; a map
  variable is \<open>None\<close> when nil and \<open>Some m\<close> once made, so that \<open>make(...)\<close> is
  \<open>Some Map.empty\<close>.
\<close>

record ('sch, 'ps, 'so) TableBuilder =
  ident :: Identifier
  schema :: 'sch
  partitionSpec :: 'ps
  sortOrder :: 'so
  location :: string
  metadataLocation_b :: string
  properties :: "(string \<rightharpoonup> string) option"


definition WithPartitionSpec ::
  "'ps \<Rightarrow> ('sch, 'ps, 'so) TableBuilder \<Rightarrow> ('sch, 'ps, 'so) TableBuilder" where
  "WithPartitionSpec spec b = b\<lparr>partitionSpec := spec\<rparr>"

definition WithSortOrder ::
  "'so \<Rightarrow> ('sch, 'ps, 'so) TableBuilder \<Rightarrow> ('sch, 'ps, 'so) TableBuilder" where
  "WithSortOrder sortOrder' b = b\<lparr>sortOrder := sortOrder'\<rparr>"

definition WithProperties ::
  "(string \<rightharpoonup> string) option \<Rightarrow> ('sch, 'ps, 'so) TableBuilder \<Rightarrow> ('sch, 'ps, 'so) TableBuilder" where
  "WithProperties properties' b = b\<lparr>properties := properties'\<rparr>"


section \<open>Collaborators for evaluating the model\<close>

text \<open>
  A Glue service in the manner of a test double. Its database \<open>sales\<close> holds a table of
  this format, a table of another kind and a table of this format without a metadata
  location; every other request is answered with the service's entity-not-found error.
  The state of the service is the number of requests it has received.
\<close>

definition orders_table :: types_Table where
  "orders_table =
     \<lparr>Name = Some ''orders'',
      Parameters = [''table_type'' \<mapsto> ''ICEBERG'',
                    ''metadata_location'' \<mapsto> ''s3://warehouse/sales/orders/metadata/00001-a.metadata.json'']\<rparr>"

definition legacy_table :: types_Table where
  "legacy_table =
     \<lparr>Name = Some ''legacy'', Parameters = [''table_type'' \<mapsto> ''EXTERNAL_TABLE'']\<rparr>"

definition bare_table :: types_Table where
  "bare_table = \<lparr>Name = Some ''bare'', Parameters = [''table_type'' \<mapsto> ''ICEBERG'']\<rparr>"

text \<open>The service's error for a missing entity: a \<open>*types.EntityNotFoundException\<close> with a
  message, at an address of its own; and the same error as the SDK hands it to a caller,
  inside the errors of the operation and of the HTTP response.\<close>

definition not_found :: go_error where
  "not_found =
     GoError 1 ''*types.EntityNotFoundException''
       ''EntityNotFoundException: Entity Not Found'' None"

definition sdk_not_found :: go_error where
  "sdk_not_found =
     GoError 3 ''*smithy.OperationError''
       ''operation error Glue: GetTable, https response error StatusCode: 400, EntityNotFoundException: Entity Not Found''
       (Some (GoError 2 ''*http.ResponseError''
                ''https response error StatusCode: 400, EntityNotFoundException: Entity Not Found''
                (Some not_found)))"

definition fake_GetTable ::
  "unit \<Rightarrow> GetTableInput \<Rightarrow> nat \<Rightarrow> (GetTableOutput option \<times> go_error option) \<times> nat" where
  "fake_GetTable ctx params calls =
     (if GetTableInput.DatabaseName params = Some ''sales'' \<and> GetTableInput.Name params = Some ''orders''
      then ((Some \<lparr>Table = Some orders_table\<rparr>, None), Suc calls)
      else if GetTableInput.DatabaseName params = Some ''sales'' \<and> GetTableInput.Name params = Some ''legacy''
      then ((Some \<lparr>Table = Some legacy_table\<rparr>, None), Suc calls)
      else if GetTableInput.DatabaseName params = Some ''sales'' \<and> GetTableInput.Name params = Some ''bare''
      then ((Some \<lparr>Table = Some bare_table\<rparr>, None), Suc calls)
      else if GetTableInput.DatabaseName params = Some ''sales''
      then ((None, Some not_found), Suc calls)
      else ((None, Some sdk_not_found), Suc calls))"

definition fake_GetTables ::
  "unit \<Rightarrow> GetTablesInput \<Rightarrow> nat \<Rightarrow> (GetTablesOutput option \<times> go_error option) \<times> nat" where
  "fake_GetTables ctx params calls =
     (if GetTablesInput.DatabaseName params = Some ''sales''
      then ((Some \<lparr>TableList = [orders_table, legacy_table, bare_table]\<rparr>, None), Suc calls)
      else ((None, Some not_found), Suc calls))"

definition fake_catalog :: "(unit, nat) GlueCatalog" where
  "fake_catalog = \<lparr>glueSvc = \<lparr>GetTable_call = fake_GetTable, GetTables_call = fake_GetTables\<rparr>\<rparr>"

text \<open>
  Collaborators of \<open>GenerateMetadataFileName\<close> and \<open>Build\<close>. The world counts the
  draws of \<open>uuid.New()\<close>. For the file name a UUID is held as its text, so that
  \<open>String()\<close> is the identity, and \<open>fixed_uuid_New\<close> is a draw that yields one given UUID.
  For \<open>Build\<close> a UUID is held as the number its 128 bits denote: \<open>serial_uuid_New\<close> is a
  generator whose n-th draw yields the number n, and \<open>serial_issued\<close> is the set of the
  UUIDs it has issued so far. The metadata constructor keeps the location, the UUID and
  the properties it was called with; the storage loader hands back the location.
\<close>

definition fixed_uuid_New :: "nat \<Rightarrow> string \<times> nat" where
  "fixed_uuid_New w = (''6ba7b810-9dad-41d1-80b4-00c04fd430c8'', Suc w)"



definition text_String :: "string \<Rightarrow> string" where
  "text_String u = u"




section \<open>Properties of the Glue catalog\<close>

subsection \<open>Shared lemmas\<close>

lemma identifierToGlueTable_two:
  "length idn = 2 \<Longrightarrow> identifierToGlueTable idn = Inr (idn ! 0, idn ! 1)"
  by (simp add: identifierToGlueTable_def)

lemma identifierToGlueTable_other:
  "length idn \<noteq> 2 \<Longrightarrow>
   identifierToGlueTable idn =
     Inl (errorString (''invalid identifier, missing database name: '' @ fmt_v idn))"
  by (simp add: identifierToGlueTable_def)

lemma GetTable_on_record:
  assumes "length idn = 2"
    and "GetTable_call (glueSvc c) ctx
           \<lparr>GetTableInput.DatabaseName = Some (idn ! 0), Name = Some (idn ! 1)\<rparr> s
         = ((Some out, None), s')"
    and "Table out = Some tbl"
  shows "GetTable c new ctx idn s =
           (if map_index (Parameters tbl) ''table_type'' \<noteq> ''ICEBERG''
            then (Inl (errorString ''table is not an iceberg table''), s')
            else (Inr \<lparr>Identifier = idn,
                       Location = map_index (Parameters tbl) ''metadata_location'',
                       CatalogType = Glue\<rparr>, s'))"
  using assms by (simp add: GetTable_def identifierToGlueTable_two aws_String_def)

lemma GetTable_on_error:
  assumes "length idn = 2"
    and "GetTable_call (glueSvc c) ctx
           \<lparr>GetTableInput.DatabaseName = Some (idn ! 0), Name = Some (idn ! 1)\<rparr> s
         = ((tblRes, Some err), s')"
  shows "GetTable c new ctx idn s =
           (if errors_Is err (new_EntityNotFoundException new)
            then (Inl ErrNoSuchTable, s')
            else (Inl (wrapError (''failed to get table '' @ idn ! 0 @ ''.'' @ idn ! 1
                                   @ '': '' @ Error err) err), s'))"
  using assms
  by (simp add: GetTable_def identifierToGlueTable_two aws_String_def split: option.splits)

text \<open>
  A pointer that is allocated after the backend has returned is none of the pointers of
  the backend's error, and then \<open>errors.Is\<close> does not find it in the chain. This is about
  the errors that \<open>go_error\<close> holds, those whose types declare no \<open>Is\<close> method, as the
  types of the Glue client's errors do.
\<close>

lemma errors_Is_fresh:
  "new \<notin> set (chain_addrs err) \<Longrightarrow> \<not> errors_Is err (new_EntityNotFoundException new)"
  by (induction err rule: chain_addrs.induct)
     (auto simp: new_EntityNotFoundException_def split: option.splits)

lemma GetTable_backend_error_wrapped:
  assumes "length idn = 2"
    and "GetTable_call (glueSvc c) ctx
           \<lparr>GetTableInput.DatabaseName = Some (idn ! 0), Name = Some (idn ! 1)\<rparr> s
         = ((tblRes, Some err), s')"
    and "new \<notin> set (chain_addrs err)"
  shows "GetTable c new ctx idn s =
           (Inl (wrapError (''failed to get table '' @ idn ! 0 @ ''.'' @ idn ! 1
                             @ '': '' @ Error err) err), s')"
  using GetTable_on_error [OF assms(1,2)] errors_Is_fresh [OF assms(3)] by simp

text \<open>
  So, for such errors, \<open>GetTable\<close> does not return the sentinel as long as the pointer it
  allocates is none of the pointers the backend has returned.
\<close>

lemma GetTable_never_ErrNoSuchTable:
  assumes "\<And>params tblRes err s'.
             GetTable_call (glueSvc c) ctx params s = ((tblRes, Some err), s') \<Longrightarrow>
             new \<notin> set (chain_addrs err)"
  shows "fst (GetTable c new ctx idn s) \<noteq> Inl ErrNoSuchTable"
proof (cases "identifierToGlueTable idn")
  case (Inl e)
  then show ?thesis
    by (auto simp: GetTable_def identifierToGlueTable_def split: if_splits)
next
  case (Inr p)
  obtain database tableName where p: "p = (database, tableName)"
    by (cases p)
  obtain tblRes err s' where call:
    "GetTable_call (glueSvc c) ctx
       \<lparr>GetTableInput.DatabaseName = aws_String database, Name = aws_String tableName\<rparr> s
     = ((tblRes, err), s')"
    by (metis surj_pair)
  show ?thesis
  proof (cases err)
    case None
    with Inr p call show ?thesis
      by (simp add: GetTable_def split: option.splits)
  next
    case (Some e)
    with call have "GetTable_call (glueSvc c) ctx
       \<lparr>GetTableInput.DatabaseName = aws_String database, Name = aws_String tableName\<rparr> s
     = ((tblRes, Some e), s')"
      by simp
    then have "new \<notin> set (chain_addrs e)"
      by (rule assms)
    then have "\<not> errors_Is e (new_EntityNotFoundException new)"
      by (rule errors_Is_fresh)
    with Inr p call Some show ?thesis
      by (simp add: GetTable_def split: option.splits)
  qed
qed

lemma ListTables_loop_eq:
  "ListTables_loop database tbls acc =
     acc @ map (\<lambda>tbl. \<lparr>Identifier = [database, aws_ToString (types_Table.Name tbl)],
                        Location = map_index (Parameters tbl) ''metadata_location'',
                        CatalogType = Glue\<rparr>)
             (filter (\<lambda>tbl. map_index (Parameters tbl) ''table_type'' = ''ICEBERG'') tbls)"
  by (induction tbls arbitrary: acc) (simp_all add: GlueTableIdentifier_def)

lemmas fake_glue_defs =
  fake_catalog_def fake_GetTable_def fake_GetTables_def orders_table_def legacy_table_def
  bare_table_def not_found_def sdk_not_found_def

subsection \<open>GetTable on a record of the backend\<close>

text \<open>
  C1. For an identifier of two components on which the backend's get-table call succeeds
  with a record, \<open>GetTable\<close> returns the \<open>CatalogTable\<close> made of the identifier as given,
  the value of the record's \<open>metadata_location\<close> property and the Glue catalog type when
  the record's \<open>table_type\<close> property is \<open>ICEBERG\<close>, and fails with the error
  "table is not an iceberg table", returning no \<open>CatalogTable\<close>, for every other value
  of \<open>table_type\<close>.
\<close>

theorem GetTable_record:
  assumes "length idn = 2"
    and "GetTable_call (glueSvc c) ctx
           \<lparr>GetTableInput.DatabaseName = Some (idn ! 0), Name = Some (idn ! 1)\<rparr> s
         = ((Some out, None), s')"
    and "Table out = Some tbl"
  shows "GetTable c new ctx idn s =
           (if map_index (Parameters tbl) ''table_type'' = ''ICEBERG''
            then Inr \<lparr>Identifier = idn,
                      Location = map_index (Parameters tbl) ''metadata_location'',
                      CatalogType = Glue\<rparr>
            else Inl (errorString ''table is not an iceberg table''), s')"
  using GetTable_on_record [OF assms] by simp

theorem GetTable_record_witness:
  "GetTable fake_catalog 9 () [''sales'', ''orders''] 0 =
     (Inr \<lparr>Identifier = [''sales'', ''orders''],
           Location = ''s3://warehouse/sales/orders/metadata/00001-a.metadata.json'',
           CatalogType = Glue\<rparr>, 1) \<and>
   GetTable fake_catalog 9 () [''sales'', ''legacy''] 0 =
     (Inl (errorString ''table is not an iceberg table''), 1)"
proof -
  have len: "length [''sales'', ''orders''] = 2" "length [''sales'', ''legacy''] = 2"
    by simp_all
  have call1: "GetTable_call (glueSvc fake_catalog) ()
      \<lparr>GetTableInput.DatabaseName = Some ([''sales'', ''orders''] ! 0),
       Name = Some ([''sales'', ''orders''] ! 1)\<rparr> 0
      = ((Some \<lparr>Table = Some orders_table\<rparr>, None), 1)"
    by (simp add: fake_catalog_def fake_GetTable_def)
  have call2: "GetTable_call (glueSvc fake_catalog) ()
      \<lparr>GetTableInput.DatabaseName = Some ([''sales'', ''legacy''] ! 0),
       Name = Some ([''sales'', ''legacy''] ! 1)\<rparr> 0
      = ((Some \<lparr>Table = Some legacy_table\<rparr>, None), 1)"
    by (simp add: fake_catalog_def fake_GetTable_def)
  have tbl1: "Table \<lparr>Table = Some orders_table\<rparr> = Some orders_table"
    and tbl2: "Table \<lparr>Table = Some legacy_table\<rparr> = Some legacy_table"
    by simp_all
  show ?thesis
    using GetTable_record [OF len(1) call1 tbl1, of 9]
      GetTable_record [OF len(2) call2 tbl2, of 9]
    by (simp add: orders_table_def legacy_table_def map_index_def)
qed

subsection \<open>GetTable on an error of the backend\<close>

text \<open>
  C2. The claim: when the backend's error is an entity-not-found error, \<open>GetTable\<close> fails
  with the sentinel \<open>ErrNoSuchTable\<close>. The code tests \<open>errors.Is\<close> against a pointer it
  has just allocated, which no error of the backend can be. Evaluated on the fake service:
  for the table \<open>sales.missing\<close> the service answers with its
  \<open>*types.EntityNotFoundException\<close>, for the database \<open>hr\<close> with the same error inside the
  SDK's operation and response errors; both times \<open>GetTable\<close> returns the wrapped error
  with the cause and the names, and not the sentinel.
\<close>

theorem GetTable_entity_not_found_wrapped:
  "GetTable fake_catalog 9 () [''sales'', ''missing''] 0 =
     (Inl (wrapError
            ''failed to get table sales.missing: EntityNotFoundException: Entity Not Found''
            not_found), 1) \<and>
   GetTable fake_catalog 9 () [''hr'', ''orders''] 0 =
     (Inl (wrapError (''failed to get table hr.orders: '' @ Error sdk_not_found)
            sdk_not_found), 1) \<and>
   fst (GetTable fake_catalog 9 () [''sales'', ''missing''] 0) \<noteq> Inl ErrNoSuchTable \<and>
   fst (GetTable fake_catalog 9 () [''hr'', ''orders''] 0) \<noteq> Inl ErrNoSuchTable"
  by (simp add: GetTable_def identifierToGlueTable_def aws_String_def fake_glue_defs
      new_EntityNotFoundException_def)

subsection \<open>ListTables\<close>

text \<open>
  C3. For a namespace identifier of one component on which the backend's list call
  succeeds, \<open>ListTables\<close> returns, without an error, one \<open>CatalogTable\<close> for each entry
  whose \<open>table_type\<close> property is \<open>ICEBERG\<close>, in the backend's order and skipping the
  others: its identifier is the namespace and the entry's name, its location the entry's
  \<open>metadata_location\<close> property, its catalog type Glue. With M matching entries the
  result has M elements.
\<close>

theorem ListTables_iceberg_entries:
  assumes "GetTables_call (glueSvc c) ctx \<lparr>GetTablesInput.DatabaseName = Some ns\<rparr> s
           = ((Some out, None), s')"
  shows "\<exists>tables.
           ListTables c ctx [ns] s = (Inr tables, s') \<and>
           tables =
             map (\<lambda>tbl. \<lparr>Identifier = [ns, aws_ToString (types_Table.Name tbl)],
                         Location = map_index (Parameters tbl) ''metadata_location'',
                         CatalogType = Glue\<rparr>)
               (filter (\<lambda>tbl. map_index (Parameters tbl) ''table_type'' = ''ICEBERG'')
                  (TableList out)) \<and>
           length tables =
             length (filter (\<lambda>tbl. map_index (Parameters tbl) ''table_type'' = ''ICEBERG'')
                       (TableList out))"
  using assms
  by (simp add: ListTables_def identifierToGlueDatabase_def aws_String_def ListTables_loop_eq)

theorem ListTables_iceberg_entries_witness:
  "ListTables fake_catalog () [''sales''] 0 =
     (Inr [\<lparr>Identifier = [''sales'', ''orders''],
            Location = ''s3://warehouse/sales/orders/metadata/00001-a.metadata.json'',
            CatalogType = Glue\<rparr>,
           \<lparr>Identifier = [''sales'', ''bare''], Location = [], CatalogType = Glue\<rparr>], 1)"
proof -
  have call: "GetTables_call (glueSvc fake_catalog) ()
      \<lparr>GetTablesInput.DatabaseName = Some ''sales''\<rparr> 0
      = ((Some \<lparr>TableList = [orders_table, legacy_table, bare_table]\<rparr>, None), 1)"
    by (simp add: fake_catalog_def fake_GetTables_def)
  show ?thesis
    using ListTables_iceberg_entries [OF call]
    by (auto simp: orders_table_def legacy_table_def bare_table_def map_index_def
        aws_ToString_def)
qed

subsection \<open>Identifiers\<close>

text \<open>
  C4. Decomposing a table identifier returns its two components unchanged exactly when
  the identifier has two components and fails with the invalid-identifier error
  otherwise; decomposing a namespace identifier returns its component exactly when the
  identifier has one component and fails otherwise; and \<open>GetTable\<close> on an identifier of
  any other length than two fails with that error and leaves the backend as it was,
  whatever the backend is: no call is issued.
\<close>

theorem identifier_decomposition:
  "(length idn = 2 \<longrightarrow> identifierToGlueTable idn = Inr (idn ! 0, idn ! 1)) \<and>
   (length idn \<noteq> 2 \<longrightarrow>
      identifierToGlueTable idn =
        Inl (errorString (''invalid identifier, missing database name: '' @ fmt_v idn))) \<and>
   ((\<exists>p. identifierToGlueTable idn = Inr p) \<longleftrightarrow> length idn = 2) \<and>
   (length idn = 1 \<longrightarrow> identifierToGlueDatabase idn = Inr (idn ! 0)) \<and>
   (length idn \<noteq> 1 \<longrightarrow>
      identifierToGlueDatabase idn =
        Inl (errorString (''invalid identifier, missing database name: '' @ fmt_v idn))) \<and>
   ((\<exists>d. identifierToGlueDatabase idn = Inr d) \<longleftrightarrow> length idn = 1) \<and>
   (length idn \<noteq> 2 \<longrightarrow>
      GetTable c new ctx idn s =
        (Inl (errorString (''invalid identifier, missing database name: '' @ fmt_v idn)), s))"
  by (simp add: identifierToGlueTable_def identifierToGlueDatabase_def GetTable_def)

theorem identifier_decomposition_witness:
  "identifierToGlueTable [''sales'', ''orders''] = Inr (''sales'', ''orders'') \<and>
   identifierToGlueDatabase [''sales'', ''orders''] =
     Inl (errorString ''invalid identifier, missing database name: [sales orders]'') \<and>
   identifierToGlueDatabase [''sales''] = Inr ''sales'' \<and>
   identifierToGlueTable [''sales''] =
     Inl (errorString ''invalid identifier, missing database name: [sales]'') \<and>
   GetTable fake_catalog 9 () [''sales''] 0 =
     (Inl (errorString ''invalid identifier, missing database name: [sales]''), 0) \<and>
   GetTable fake_catalog 9 () [''warehouse'', ''sales'', ''orders''] 0 =
     (Inl (errorString ''invalid identifier, missing database name: [warehouse sales orders]''), 0)"
  using identifier_decomposition [of "[''sales'', ''orders'']" fake_catalog 9 "()" 0]
    identifier_decomposition [of "[''sales'']" fake_catalog 9 "()" 0]
    identifier_decomposition [of "[''warehouse'', ''sales'', ''orders'']" fake_catalog 9 "()" 0]
  by (simp add: fmt_v_def)

text \<open>
  C5. Round trip: the table identifier built from a database and a table decomposes into
  that database and that table, and the namespace identifier built from a database
  decomposes into that database.
\<close>

theorem identifier_round_trip:
  "identifierToGlueTable (GlueTableIdentifier db t) = Inr (db, t) \<and>
   identifierToGlueDatabase (GlueDatabaseIdentifier db) = Inr db"
  by (simp add: identifierToGlueTable_def identifierToGlueDatabase_def
      GlueTableIdentifier_def GlueDatabaseIdentifier_def)

theorem identifier_round_trip_witness:
  "identifierToGlueTable (GlueTableIdentifier ''sales'' ''orders'') = Inr (''sales'', ''orders'') \<and>
   identifierToGlueDatabase (GlueDatabaseIdentifier ''sales'') = Inr ''sales''"
  using identifier_round_trip [of "''sales''" "''orders''"] by simp

subsection \<open>GetTable on a record without a metadata location\<close>

text \<open>
  C10. \<open>GetTable\<close> does not validate the metadata location: for an identifier of two
  components whose record has \<open>table_type\<close> equal to \<open>ICEBERG\<close> and no
  \<open>metadata_location\<close> key, \<open>GetTable\<close> succeeds and the location of the \<open>CatalogTable\<close>
  is the empty string.
\<close>

theorem GetTable_missing_metadata_location:
  assumes "length idn = 2"
    and "GetTable_call (glueSvc c) ctx
           \<lparr>GetTableInput.DatabaseName = Some (idn ! 0), Name = Some (idn ! 1)\<rparr> s
         = ((Some out, None), s')"
    and "Table out = Some tbl"
    and "Parameters tbl ''table_type'' = Some ''ICEBERG''"
    and "Parameters tbl ''metadata_location'' = None"
  shows "GetTable c new ctx idn s =
           (Inr \<lparr>Identifier = idn, Location = [], CatalogType = Glue\<rparr>, s')"
  using GetTable_on_record [OF assms(1-3)] assms(4,5) by (simp add: map_index_def)

theorem GetTable_missing_metadata_location_witness:
  "GetTable fake_catalog 9 () [''sales'', ''bare''] 0 =
     (Inr \<lparr>Identifier = [''sales'', ''bare''], Location = [], CatalogType = Glue\<rparr>, 1)"
proof -
  have len: "length [''sales'', ''bare''] = 2"
    by simp
  have call: "GetTable_call (glueSvc fake_catalog) ()
      \<lparr>GetTableInput.DatabaseName = Some ([''sales'', ''bare''] ! 0),
       Name = Some ([''sales'', ''bare''] ! 1)\<rparr> 0
      = ((Some \<lparr>Table = Some bare_table\<rparr>, None), 1)"
    by (simp add: fake_catalog_def fake_GetTable_def)
  have tbl: "Table \<lparr>Table = Some bare_table\<rparr> = Some bare_table"
    by simp
  have ty: "Parameters bare_table ''table_type'' = Some ''ICEBERG''"
    and loc: "Parameters bare_table ''metadata_location'' = None"
    by (simp_all add: bare_table_def)
  show ?thesis
    using GetTable_missing_metadata_location [OF len call tbl ty loc, of 9] by simp
qed

section \<open>Properties of the table package\<close>

subsection \<open>Decimal text\<close>

lemma of_char_digit: "d < 10 \<Longrightarrow> of_char (digit d) = (48 + d :: nat)"
  by (simp add: digit_def)

lemma is_digit_digit: "d < 10 \<Longrightarrow> is_digit (digit d)"
  by (simp add: is_digit_def of_char_digit)

lemma decimal_nonempty: "decimal n \<noteq> []"
  by (subst decimal.simps) simp

lemma decimal_digits: "list_all is_digit (decimal n)"
proof (induction n rule: decimal.induct)
  case (1 n)
  show ?case
  proof (cases "n < 10")
    case True
    then show ?thesis
      by (subst decimal.simps) (simp add: is_digit_digit)
  next
    case False
    with "1" show ?thesis
      by (subst decimal.simps) (simp add: is_digit_digit)
  qed
qed

lemma zeros_digits: "list_all is_digit (replicate k CHR ''0'')"
  by (induction k) (simp_all add: is_digit_def)

lemma decimal_value_snoc:
  "decimal_value (ds @ [c]) = 10 * decimal_value ds + (of_char c - 48)"
  by (simp add: decimal_value_def)

lemma decimal_value_decimal: "decimal_value (decimal n) = n"
proof (induction n rule: decimal.induct)
  case (1 n)
  show ?case
  proof (cases "n < 10")
    case True
    then show ?thesis
      by (subst decimal.simps) (simp add: decimal_value_def of_char_digit)
  next
    case False
    with "1" show ?thesis
      by (subst decimal.simps) (simp add: decimal_value_snoc of_char_digit)
  qed
qed

lemma decimal_value_zeros:
  "decimal_value (replicate k CHR ''0'' @ ds) = decimal_value ds"
proof -
  have "foldl (\<lambda>n c. 10 * n + (of_char c - of_char CHR ''0'')) (0::nat) (replicate k CHR ''0'') = 0"
    by (induction k) simp_all
  then show ?thesis
    by (simp add: decimal_value_def)
qed

lemma length_decimal_le: "length (decimal n) \<le> Suc k \<longleftrightarrow> n < 10 ^ Suc k"
proof (induction k arbitrary: n)
  case 0
  show ?case
  proof (cases "n < 10")
    case True
    then show ?thesis
      by (subst decimal.simps) simp
  next
    case False
    have "0 < length (decimal (n div 10))"
      using decimal_nonempty by blast
    with False show ?thesis
      by (subst decimal.simps) simp
  qed
next
  case (Suc k)
  show ?case
  proof (cases "n < 10")
    case True
    have "(10::nat) ^ 1 \<le> 10 ^ Suc (Suc k)"
      by (rule power_increasing) simp_all
    then have "(10::nat) \<le> 10 ^ Suc (Suc k)"
      by (simp only: power_one_right)
    with True have "n < 10 ^ Suc (Suc k)"
      by (rule less_le_trans)
    with True show ?thesis
      by (subst decimal.simps) simp
  next
    case False
    have "n div 10 < 10 ^ Suc k \<longleftrightarrow> n < 10 ^ Suc (Suc k)"
      by (simp add: div_less_iff_less_mult mult.commute)
    with False Suc [of "n div 10"] show ?thesis
      by (subst decimal.simps) simp
  qed
qed

lemma fmt_05d_nonneg:
  "0 \<le> i \<Longrightarrow>
   fmt_05d i = replicate (5 - length (decimal (nat i))) CHR ''0'' @ decimal (nat i)"
  by (simp add: fmt_05d_def Let_def)

subsection \<open>GenerateMetadataFileName\<close>

text \<open>
  C6. For a negative version \<open>GenerateMetadataFileName\<close> fails with the invalid-version
  error and draws no UUID. For a version that is not negative it succeeds with the text
  made of a numeric prefix, a hyphen, the text of the UUID drawn and \<open>.metadata.json\<close>.
  The prefix is the decimal text of the version with zeros in front up to five
  characters: it has at least five characters, all of them digits, it denotes the version,
  it has exactly five characters up to version 99999 and is the unpadded, longer decimal
  text beyond, with no upper bound.
\<close>

theorem GenerateMetadataFileName_result:
  "(newVersion < 0 \<longrightarrow>
      GenerateMetadataFileName uuid_New uuid_String newVersion w =
        (Inl (errorString (''invalid table version: '' @ fmt_d newVersion
                            @ '' must be a non-negative integer'')), w)) \<and>
   (0 \<le> newVersion \<longrightarrow>
      GenerateMetadataFileName uuid_New uuid_String newVersion w =
        (Inr (fmt_05d newVersion @ ''-'' @ uuid_String (fst (uuid_New w)) @ ''.metadata.json''),
         snd (uuid_New w)) \<and>
      fmt_05d newVersion =
        replicate (5 - length (decimal (nat newVersion))) CHR ''0'' @ decimal (nat newVersion) \<and>
      5 \<le> length (fmt_05d newVersion) \<and>
      list_all is_digit (fmt_05d newVersion) \<and>
      int (decimal_value (fmt_05d newVersion)) = newVersion \<and>
      (newVersion \<le> 99999 \<longrightarrow> length (fmt_05d newVersion) = 5) \<and>
      (99999 < newVersion \<longrightarrow>
         fmt_05d newVersion = decimal (nat newVersion) \<and> 5 < length (fmt_05d newVersion)))"
proof (intro conjI impI)
  assume "newVersion < 0"
  then show "GenerateMetadataFileName uuid_New uuid_String newVersion w =
      (Inl (errorString (''invalid table version: '' @ fmt_d newVersion
                          @ '' must be a non-negative integer'')), w)"
    by (simp add: GenerateMetadataFileName_def)
next
  assume nn: "0 \<le> newVersion"
  then show "GenerateMetadataFileName uuid_New uuid_String newVersion w =
      (Inr (fmt_05d newVersion @ ''-'' @ uuid_String (fst (uuid_New w)) @ ''.metadata.json''),
       snd (uuid_New w))"
    by (simp add: GenerateMetadataFileName_def split: prod.splits)
  show pad: "fmt_05d newVersion =
      replicate (5 - length (decimal (nat newVersion))) CHR ''0'' @ decimal (nat newVersion)"
    using nn by (rule fmt_05d_nonneg)
  show "5 \<le> length (fmt_05d newVersion)"
    by (simp add: pad)
  show "list_all is_digit (fmt_05d newVersion)"
    by (simp add: pad decimal_digits zeros_digits)
  show "int (decimal_value (fmt_05d newVersion)) = newVersion"
    using nn by (simp add: pad decimal_value_zeros decimal_value_decimal)
  {
    assume "newVersion \<le> 99999"
    then have "nat newVersion < 10 ^ Suc 4"
      by simp
    then have "length (decimal (nat newVersion)) \<le> 5"
      using length_decimal_le [of "nat newVersion" 4] by simp
    then show "length (fmt_05d newVersion) = 5"
      by (simp add: pad)
  }
  {
    assume "99999 < newVersion"
    then have "\<not> nat newVersion < 10 ^ Suc 4"
      by simp
    then have long: "5 < length (decimal (nat newVersion))"
      using length_decimal_le [of "nat newVersion" 4] by simp
    then show "fmt_05d newVersion = decimal (nat newVersion)"
      by (simp add: pad)
    with long show "5 < length (fmt_05d newVersion)"
      by simp
  }
qed

theorem GenerateMetadataFileName_result_witness:
  "GenerateMetadataFileName fixed_uuid_New text_String (- 1) 0 =
     (Inl (errorString ''invalid table version: -1 must be a non-negative integer''), 0) \<and>
   GenerateMetadataFileName fixed_uuid_New text_String 3 0 =
     (Inr ''00003-6ba7b810-9dad-41d1-80b4-00c04fd430c8.metadata.json'', 1) \<and>
   GenerateMetadataFileName fixed_uuid_New text_String 123456 0 =
     (Inr ''123456-6ba7b810-9dad-41d1-80b4-00c04fd430c8.metadata.json'', 1)"
proof -
  have d1: "decimal (Suc 0) = ''1''" and d3: "decimal 3 = ''3''"
    and d6: "decimal 123456 = ''123456''"
    by (simp_all add: decimal.simps digit_def char_of_def bit_0)
  have zs: "replicate 4 CHR ''0'' = ''0000''"
    by (simp add: numeral_eq_Suc)
  show ?thesis
    using GenerateMetadataFileName_result [of "- 1" fixed_uuid_New text_String 0]
      GenerateMetadataFileName_result [of 3 fixed_uuid_New text_String 0]
      GenerateMetadataFileName_result [of 123456 fixed_uuid_New text_String 0]
    by (simp add: fmt_d_def d1 d3 d6 zs fixed_uuid_New_def text_String_def)
qed

subsection \<open>Equals\<close>

lemma slices_Equal_from_eq:
  "length s1 = length s2 \<Longrightarrow> slices_Equal_from s1 s2 \<longleftrightarrow> s1 = s2"
  by (induction s1 s2 rule: list_induct2) simp_all

lemma slices_Equal_eq: "slices_Equal s1 s2 \<longleftrightarrow> s1 = s2"
  by (auto simp: slices_Equal_def slices_Equal_from_eq)

lemma Equals_eq:
  "Equals deq a b \<longleftrightarrow>
     identifier a = identifier b \<and> metadataLocation a = metadataLocation b \<and>
     deq (metadata a) (metadata b)"
  by (simp add: Equals_def slices_Equal_eq)

text \<open>
  C7. \<open>a.Equals(b)\<close> is true exactly when the identifiers have the same length and equal
  elements at every index, the metadata locations are the same string and the metadata
  are deep-equal. In particular two tables that differ in the metadata location are
  unequal, and so are two tables whose metadata are not deep-equal, whatever the other
  fields are.
\<close>

theorem Equals_iff:
  "(Equals deq a b \<longleftrightarrow>
      (length (identifier a) = length (identifier b) \<and>
       (\<forall>i < length (identifier a). identifier a ! i = identifier b ! i)) \<and>
      metadataLocation a = metadataLocation b \<and>
      deq (metadata a) (metadata b)) \<and>
   (metadataLocation a \<noteq> metadataLocation b \<longrightarrow> \<not> Equals deq a b) \<and>
   (\<not> deq (metadata a) (metadata b) \<longrightarrow> \<not> Equals deq a b)"
  by (auto simp: Equals_eq list_eq_iff_nth_eq)

theorem Equals_iff_witness:
  "Equals (=)
     \<lparr>identifier = [''sales'', ''orders''], metadata = ''format 2, schema 0'',
      metadataLocation = ''metadata/00001-a.metadata.json'', fs = ()\<rparr>
     \<lparr>identifier = [''sales'', ''orders''], metadata = ''format 2, schema 0'',
      metadataLocation = ''metadata/00001-a.metadata.json'', fs = ()\<rparr> \<and>
   \<not> Equals (=)
     \<lparr>identifier = [''sales'', ''orders''], metadata = ''format 2, schema 0'',
      metadataLocation = ''metadata/00001-a.metadata.json'', fs = ()\<rparr>
     \<lparr>identifier = [''sales'', ''orders''], metadata = ''format 2, schema 0'',
      metadataLocation = ''metadata/00002-b.metadata.json'', fs = ()\<rparr> \<and>
   \<not> Equals (=)
     \<lparr>identifier = [''sales'', ''orders''], metadata = ''format 2, schema 0'',
      metadataLocation = ''metadata/00001-a.metadata.json'', fs = ()\<rparr>
     \<lparr>identifier = [''sales'', ''orders''], metadata = ''format 2, schema 1'',
      metadataLocation = ''metadata/00001-a.metadata.json'', fs = ()\<rparr>"
  using
    Equals_iff [of "(=)"
      "\<lparr>identifier = [''sales'', ''orders''], metadata = ''format 2, schema 0'',
        metadataLocation = ''metadata/00001-a.metadata.json'', fs = ()\<rparr>"
      "\<lparr>identifier = [''sales'', ''orders''], metadata = ''format 2, schema 0'',
        metadataLocation = ''metadata/00001-a.metadata.json'', fs = ()\<rparr>"]
    Equals_iff [of "(=)"
      "\<lparr>identifier = [''sales'', ''orders''], metadata = ''format 2, schema 0'',
        metadataLocation = ''metadata/00001-a.metadata.json'', fs = ()\<rparr>"
      "\<lparr>identifier = [''sales'', ''orders''], metadata = ''format 2, schema 0'',
        metadataLocation = ''metadata/00002-b.metadata.json'', fs = ()\<rparr>"]
    Equals_iff [of "(=)"
      "\<lparr>identifier = [''sales'', ''orders''], metadata = ''format 2, schema 0'',
        metadataLocation = ''metadata/00001-a.metadata.json'', fs = ()\<rparr>"
      "\<lparr>identifier = [''sales'', ''orders''], metadata = ''format 2, schema 1'',
        metadataLocation = ''metadata/00001-a.metadata.json'', fs = ()\<rparr>"]
  by (simp add: less_Suc_eq all_conj_distrib numeral_2_eq_2)

text \<open>
  C9. \<open>Equals\<close> does not look at the storage handle: two tables whose identifiers are
  equal element by element, whose metadata locations are the same and whose metadata are
  deep-equal are equal whatever their \<open>fs\<close> fields hold, also when these differ.
\<close>

theorem Equals_ignores_fs:
  assumes "length (identifier a) = length (identifier b)"
    and "\<forall>i < length (identifier a). identifier a ! i = identifier b ! i"
    and "metadataLocation a = metadataLocation b"
    and "deq (metadata a) (metadata b)"
  shows "Equals deq (a\<lparr>fs := fa\<rparr>) (b\<lparr>fs := fb\<rparr>)"
  using assms by (simp add: Equals_eq list_eq_iff_nth_eq)

theorem Equals_ignores_fs_witness:
  "''s3://warehouse'' \<noteq> ''file:///tmp/warehouse'' \<and>
   Equals (=)
     \<lparr>identifier = [''sales'', ''orders''], metadata = ''format 2, schema 0'',
      metadataLocation = ''metadata/00001-a.metadata.json'', fs = ''s3://warehouse''\<rparr>
     \<lparr>identifier = [''sales'', ''orders''], metadata = ''format 2, schema 0'',
      metadataLocation = ''metadata/00001-a.metadata.json'', fs = ''file:///tmp/warehouse''\<rparr>"
proof -
  let ?a = "\<lparr>identifier = [''sales'', ''orders''], metadata = ''format 2, schema 0'',
      metadataLocation = ''metadata/00001-a.metadata.json'', fs = ''s3://warehouse''\<rparr>"
  have h1: "length (identifier ?a) = length (identifier ?a)"
    and h2: "\<forall>i < length (identifier ?a). identifier ?a ! i = identifier ?a ! i"
    and h3: "metadataLocation ?a = metadataLocation ?a"
    and h4: "(=) (metadata ?a) (metadata ?a)"
    by simp_all
  show ?thesis
    using Equals_ignores_fs [of ?a ?a "(=)" "''s3://warehouse''" "''file:///tmp/warehouse''",
        OF h1 h2 h3 h4]
    by simp
qed

subsection \<open>Build\<close>




end
